theory Spec2Isabelle
  imports Main "HOL-Library.Word" "HOL-Library.Signed_Division"
begin

section \<open>The terminal grid of \<open>src/main.cpp\<close>\<close>

text \<open>
  \<open>TerminalWidget\<close> in \<open>src/main.cpp\<close> is the only variant of the repository that
  interprets the byte stream itself; the other two hand the bytes to an external
  library. The development below embeds its grid, its cursor, \<open>handleOutput\<close>,
  \<open>parseEscapeSequence\<close> and \<open>resizeEvent\<close>.

  Bytes are \<open>uchar\<close>, a grid character is a 16-bit \<open>QChar\<close>, and the C \<open>int\<close>
  members are integers. The only arithmetic on them is \<open>cursorX + 1\<close>,
  \<open>cursorY + 1\<close> and \<open>rows - 1\<close>, on values that lie between \<open>-1\<close> and a
  number of rows or columns the widget has had, far from the 32-bit limits.
\<close>

type_synonym uchar = "8 word"
type_synonym qchar = "16 word"

text \<open>The \<open>Qt::GlobalColor\<close> values the widget assigns.\<close>

datatype qcolor = Black | Red | Green | Yellow | Blue | Magenta | Cyan | White

text \<open>\<open>struct Cell { QChar ch; QColor color; }\<close> with its two constructors.\<close>

record cell =
  ch :: qchar
  color :: qcolor

definition Cell_default :: cell where
  "Cell_default = \<lparr>ch = 0x20, color = White\<rparr>"

definition Cell :: "qchar \<Rightarrow> qcolor \<Rightarrow> cell" where
  "Cell c col = \<lparr>ch = c, color = col\<rparr>"

definition QChar :: "uchar \<Rightarrow> qchar" where
  "QChar b = ucast b"

text \<open>
  The members of the widget that the three functions read or write, and the
  function-local \<open>static QByteArray escBuf\<close> of \<open>handleOutput\<close>, which outlives the
  call. The descriptor, the child's pid, the blink flag and the baseline play no part.
\<close>

record terminal =
  screen :: "cell list list"
  rows :: int
  cols :: int
  cursorX :: int
  cursorY :: int
  charWidth :: int
  charHeight :: int
  currentColor :: qcolor
  escBuf :: "uchar list"

text \<open>
  What C++ leaves undefined is a value here: an index outside a \<open>QVector\<close>, a division
  by zero, a negative size given to \<open>QVector::resize\<close>.
\<close>

datatype fault = IndexOutOfRange | DivisionByZero | NegativeSize

text \<open>
  The member initialisers: a \<open>TERM_ROWS\<close> by \<open>TERM_COLS\<close> grid of default cells, the
  cursor at the origin, white as the current colour. \<open>initFont\<close> then replaces the
  cell size in pixels by the font's metrics, taken here as parameters.
\<close>

definition TERM_ROWS :: int where "TERM_ROWS = 24"
definition TERM_COLS :: int where "TERM_COLS = 80"

definition initial :: "int \<Rightarrow> int \<Rightarrow> terminal" where
  "initial cw chh =
     \<lparr>screen = replicate (nat TERM_ROWS) (replicate (nat TERM_COLS) Cell_default),
      rows = TERM_ROWS, cols = TERM_COLS, cursorX = 0, cursorY = 0,
      charWidth = cw, charHeight = chh, currentColor = White, escBuf = []\<rparr>"

section \<open>\<open>parseEscapeSequence\<close>\<close>

text \<open>
  The pattern is the string literal \<open>"\\x1B\\[(\d+)(;(\d+))*m"\<close>. Its \<open>\d\<close> is not
  doubled, so what reaches the regular-expression engine depends on the compiler: the
  class of decimal digits if the backslash survives, the plain letter \<open>d\<close> where the
  unknown escape is read as its letter (GCC, Clang and MSVC do that, with a warning).
  Both readings are kept, as a parameter.
\<close>

datatype dclass = DecimalDigit | LetterD

fun in_class :: "dclass \<Rightarrow> uchar \<Rightarrow> bool" where
  "in_class DecimalDigit b = (0x30 \<le> b \<and> b \<le> 0x39)"
| "in_class LetterD b = (b = 0x64)"

text \<open>
  \<open>(;(\d+))*m\<close> at the head of the text. Neither \<open>;\<close> nor \<open>m\<close> belongs to the class,
  so a run of the class can only be taken whole and backtracking finds nothing more.
\<close>

function match_tail :: "dclass \<Rightarrow> uchar list \<Rightarrow> bool" where
  "match_tail k [] = False"
| "match_tail k (c # cs) =
     (if c = 0x6D then True
      else if c = 0x3B then
        (if takeWhile (in_class k) cs = [] then False
         else match_tail k (dropWhile (in_class k) cs))
      else False)"
  by pat_completeness auto
termination
  by (relation "measure (\<lambda>(k, cs). length cs)")
     (auto simp: le_imp_less_Suc length_dropWhile_le)

text \<open>The whole pattern at the head of the text; the result is capture group 1.\<close>

fun match_here :: "dclass \<Rightarrow> uchar list \<Rightarrow> uchar list option" where
  "match_here k (e # b # cs) =
     (if e = 0x1B \<and> b = 0x5B \<and> takeWhile (in_class k) cs \<noteq> []
         \<and> match_tail k (dropWhile (in_class k) cs)
      then Some (takeWhile (in_class k) cs) else None)"
| "match_here k cs = None"

text \<open>
  \<open>regex.match(seq)\<close> searches: the leftmost position where the pattern matches wins.
  Each byte stands for one character, which is what the conversion of the byte array
  to a string gives for ASCII text.
\<close>

fun regex_match :: "dclass \<Rightarrow> uchar list \<Rightarrow> uchar list option" where
  "regex_match k [] = None"
| "regex_match k (c # cs) =
     (case match_here k (c # cs) of
        Some d \<Rightarrow> Some d
      | None \<Rightarrow> regex_match k cs)"

text \<open>
  \<open>QString::toInt\<close> on the captured text: the decimal value when the text is a
  number that fits an \<open>int\<close>, and 0 when the conversion fails.
\<close>

definition toInt :: "uchar list \<Rightarrow> int" where
  "toInt d =
     (if d \<noteq> [] \<and> list_all (in_class DecimalDigit) d
      then (let v = foldl (\<lambda>a c. 10 * a + (uint c - 48)) 0 d
            in if v \<le> 2147483647 then v else 0)
      else 0)"

definition startsWith :: "uchar list \<Rightarrow> uchar list \<Rightarrow> bool" where
  "startsWith seq p = (take (length p) seq = p)"

definition parseEscapeSequence :: "dclass \<Rightarrow> uchar list \<Rightarrow> terminal \<Rightarrow> terminal" where
  "parseEscapeSequence k seq s =
     (if startsWith seq [0x1B, 0x5B] then
        (case regex_match k seq of
           Some d \<Rightarrow>
             (let code = toInt d in
              if code = 30 then s\<lparr>currentColor := Black\<rparr>
              else if code = 31 then s\<lparr>currentColor := Red\<rparr>
              else if code = 32 then s\<lparr>currentColor := Green\<rparr>
              else if code = 33 then s\<lparr>currentColor := Yellow\<rparr>
              else if code = 34 then s\<lparr>currentColor := Blue\<rparr>
              else if code = 35 then s\<lparr>currentColor := Magenta\<rparr>
              else if code = 36 then s\<lparr>currentColor := Cyan\<rparr>
              else if code = 37 then s\<lparr>currentColor := White\<rparr>
              else s)
         | None \<Rightarrow> s)
      else s)"

section \<open>\<open>handleOutput\<close>\<close>

text \<open>
  \<open>screen[cursorY][cursorX] = Cell(QChar(byte), currentColor)\<close>. The indices are
  checked against the vectors as they are, not against \<open>rows\<close> and \<open>cols\<close>.
\<close>

definition store_cell :: "uchar \<Rightarrow> terminal \<Rightarrow> fault + terminal" where
  "store_cell byte s =
     (if 0 \<le> cursorY s \<and> cursorY s < int (length (screen s))
         \<and> 0 \<le> cursorX s
         \<and> cursorX s < int (length (screen s ! nat (cursorY s)))
      then Inr (s\<lparr>screen := (screen s)
                  [nat (cursorY s) :=
                     (screen s ! nat (cursorY s))
                       [nat (cursorX s) := Cell (QChar byte) (currentColor s)]]\<rparr>)
      else Inl IndexOutOfRange)"

text \<open>\<open>cursorX = 0; cursorY = qMin(cursorY + 1, rows - 1)\<close>, which the loop has twice.\<close>

definition next_line :: "terminal \<Rightarrow> terminal" where
  "next_line s = s\<lparr>cursorX := 0, cursorY := min (cursorY s + 1) (rows s - 1)\<rparr>"

text \<open>One round of the \<open>while\<close> loop, on the byte \<open>data[i]\<close>.\<close>

definition handle_byte :: "dclass \<Rightarrow> uchar \<Rightarrow> terminal \<Rightarrow> fault + terminal" where
  "handle_byte k byte s =
     (if escBuf s \<noteq> [] \<or> byte = 0x1B then
        (let s1 = s\<lparr>escBuf := escBuf s @ [byte]\<rparr> in
         if 0x40 \<le> byte \<and> byte \<le> 0x7E
         then Inr ((parseEscapeSequence k (escBuf s1) s1)\<lparr>escBuf := []\<rparr>)
         else Inr s1)
      else if byte = 0x0A then Inr (next_line s)
      else
        (case (if cursorY s < rows s \<and> cursorX s < cols s
               then store_cell byte s else Inr s) of
           Inl e \<Rightarrow> Inl e
         | Inr s1 \<Rightarrow>
            (let s2 = s1\<lparr>cursorX := cursorX s1 + 1\<rparr> in
             if cursorX s2 \<ge> cols s2 then Inr (next_line s2) else Inr s2)))"

text \<open>The loop over \<open>data\<close>; the repaint request at its end changes no member.\<close>

fun handleOutput :: "dclass \<Rightarrow> uchar list \<Rightarrow> terminal \<Rightarrow> fault + terminal" where
  "handleOutput k [] s = Inr s"
| "handleOutput k (byte # data) s =
     (case handle_byte k byte s of
        Inl e \<Rightarrow> Inl e
      | Inr s' \<Rightarrow> handleOutput k data s')"

section \<open>\<open>resizeEvent\<close>\<close>

text \<open>\<open>QVector::resize\<close>: cut to the new size, or filled up with default elements.\<close>

definition vresize :: "nat \<Rightarrow> 'a \<Rightarrow> 'a list \<Rightarrow> 'a list" where
  "vresize n d xs = take n xs @ replicate (n - length xs) d"

text \<open>
  \<open>w\<close> and \<open>h\<close> are the widget's \<open>width()\<close> and \<open>height()\<close>; C++ division truncates.
  The window-size \<open>ioctl\<close> and the signal to the child are outside the grid.
\<close>

definition resizeEvent :: "int \<Rightarrow> int \<Rightarrow> terminal \<Rightarrow> fault + terminal" where
  "resizeEvent w h s =
     (if charWidth s = 0 \<or> charHeight s = 0 then Inl DivisionByZero
      else
        (let s1 = s\<lparr>cols := w sdiv charWidth s\<rparr>;
             s2 = s1\<lparr>rows := h sdiv charHeight s1\<rparr>
         in if rows s2 < 0 \<or> cols s2 < 0 then Inl NegativeSize
            else Inr (s2\<lparr>screen :=
                   map (vresize (nat (cols s2)) Cell_default)
                       (vresize (nat (rows s2)) [] (screen s2))\<rparr>)))"

section \<open>Invariants\<close>

text \<open>
  The grid has \<open>rows\<close> rows of \<open>cols\<close> cells each: the constructor and
  \<open>resizeEvent\<close> establish it, \<open>handleOutput\<close> keeps it.
\<close>

definition grid_ok :: "terminal \<Rightarrow> bool" where
  "grid_ok s =
     (int (length (screen s)) = rows s \<and> (\<forall>r \<in> set (screen s). int (length r) = cols s))"

text \<open>
  The accumulator is empty, or it starts with ESC and holds no byte of \<open>0x40\<close> to
  \<open>0x7E\<close> after it: such a byte would have ended the sequence.
\<close>

definition esc_ok :: "terminal \<Rightarrow> bool" where
  "esc_ok s =
     (case escBuf s of
        [] \<Rightarrow> True
      | e # rest \<Rightarrow> e = 0x1B \<and> list_all (\<lambda>b. \<not> (0x40 \<le> b \<and> b \<le> 0x7E)) rest)"

section \<open>Basic facts\<close>

subsection \<open>The loop\<close>

lemma handleOutput_append:
  "handleOutput k (xs @ ys) s =
     (case handleOutput k xs s of Inl e \<Rightarrow> Inl e | Inr s' \<Rightarrow> handleOutput k ys s')"
  by (induction xs arbitrary: s) (auto split: sum.splits)

subsection \<open>\<open>parseEscapeSequence\<close> writes one member\<close>

lemma parse_frame:
  "parseEscapeSequence k seq s = s\<lparr>currentColor := currentColor (parseEscapeSequence k seq s)\<rparr>"
  by (simp add: parseEscapeSequence_def Let_def split: option.split)

lemma parse_screen [simp]: "screen (parseEscapeSequence k seq s) = screen s"
  and parse_cursorX [simp]: "cursorX (parseEscapeSequence k seq s) = cursorX s"
  and parse_cursorY [simp]: "cursorY (parseEscapeSequence k seq s) = cursorY s"
  and parse_rows [simp]: "rows (parseEscapeSequence k seq s) = rows s"
  and parse_cols [simp]: "cols (parseEscapeSequence k seq s) = cols s"
  and parse_escBuf [simp]: "escBuf (parseEscapeSequence k seq s) = escBuf s"
  by (subst parse_frame, simp)+

lemma parse_two: "parseEscapeSequence k [e, b] s = s"
  by (simp add: parseEscapeSequence_def startsWith_def)

lemma parse_not_csi: "b \<noteq> 0x5B \<Longrightarrow> parseEscapeSequence k (e # b # bs) s = s"
  by (simp add: parseEscapeSequence_def startsWith_def)

lemma no_erase: "parseEscapeSequence k [0x1B, 0x5B, 0x32, 0x4A] s = s"
  by (cases k) (simp_all add: parseEscapeSequence_def startsWith_def)

lemma no_reset: "parseEscapeSequence k [0x1B, 0x5B, 0x30, 0x6D] s = s"
  by (cases k) (simp_all add: parseEscapeSequence_def startsWith_def toInt_def)

subsection \<open>Inside an escape sequence\<close>

lemma handle_byte_keep:
  "escBuf s \<noteq> [] \<Longrightarrow> \<not> (0x40 \<le> b \<and> b \<le> 0x7E) \<Longrightarrow>
   handle_byte k b s = Inr (s\<lparr>escBuf := escBuf s @ [b]\<rparr>)"
  by (auto simp: handle_byte_def Let_def)

lemma handle_byte_final:
  "escBuf s \<noteq> [] \<Longrightarrow> 0x40 \<le> f \<and> f \<le> 0x7E \<Longrightarrow>
   handle_byte k f s =
     Inr ((parseEscapeSequence k (escBuf s @ [f]) (s\<lparr>escBuf := escBuf s @ [f]\<rparr>))\<lparr>escBuf := []\<rparr>)"
  by (simp add: handle_byte_def Let_def)

lemma accumulate:
  "escBuf s \<noteq> [] \<Longrightarrow> \<forall>b \<in> set bs. \<not> (0x40 \<le> b \<and> b \<le> 0x7E) \<Longrightarrow>
   handleOutput k bs s = Inr (s\<lparr>escBuf := escBuf s @ bs\<rparr>)"
proof (induction bs arbitrary: s)
  case Nil
  then show ?case by simp
next
  case (Cons b bs)
  let ?s1 = "s\<lparr>escBuf := escBuf s @ [b]\<rparr>"
  have step: "handle_byte k b s = Inr ?s1"
    using Cons.prems by (intro handle_byte_keep) auto
  have "handleOutput k bs ?s1 = Inr (?s1\<lparr>escBuf := escBuf ?s1 @ bs\<rparr>)"
    using Cons.prems by (intro Cons.IH) auto
  with step show ?case by simp
qed

lemma short_escape:
  assumes "escBuf s = [0x1B]" "b \<noteq> 0x5B"
  shows "handle_byte k b s =
           Inr (if 0x40 \<le> b \<and> b \<le> 0x7E then s\<lparr>escBuf := []\<rparr> else s\<lparr>escBuf := [0x1B, b]\<rparr>)"
  using assms by (simp add: handle_byte_def Let_def parseEscapeSequence_def startsWith_def)

subsection \<open>Outside an escape sequence\<close>

lemma plain_colour_step:
  "escBuf s = [] \<Longrightarrow> b \<noteq> 0x1B \<Longrightarrow> handle_byte k b s = Inr s' \<Longrightarrow>
   currentColor s' = currentColor s \<and> escBuf s' = []"
  by (auto simp: handle_byte_def Let_def next_line_def store_cell_def split: if_splits)

lemma plain_colour:
  "escBuf s = [] \<Longrightarrow> \<forall>b \<in> set bs. b \<noteq> 0x1B \<Longrightarrow> handleOutput k bs s = Inr s' \<Longrightarrow>
   currentColor s' = currentColor s \<and> escBuf s' = []"
proof (induction bs arbitrary: s)
  case Nil
  then show ?case by simp
next
  case (Cons b bs)
  from Cons.prems(3) obtain s1
    where s1: "handle_byte k b s = Inr s1" "handleOutput k bs s1 = Inr s'"
    by (auto split: sum.splits)
  from plain_colour_step [OF Cons.prems(1) _ s1(1)] Cons.prems(2)
  have "currentColor s1 = currentColor s" "escBuf s1 = []" by auto
  with Cons.IH [OF _ _ s1(2)] Cons.prems(2) show ?case by auto
qed

subsection \<open>No byte stream reaches the colour switch\<close>

text \<open>
  \<open>[\<close> is \<open>0x5B\<close>, inside \<open>0x40\<close> to \<open>0x7E\<close>. A sequence that starts with ESC \<open>[\<close> is
  therefore handed to \<open>parseEscapeSequence\<close> as those two bytes alone, which the
  pattern cannot match, under either reading of its \<open>\d\<close>.
\<close>

lemma colour_step:
  assumes "esc_ok s" "handle_byte k b s = Inr s'"
  shows "esc_ok s' \<and> currentColor s' = currentColor s"
proof (cases "escBuf s")
  case Nil
  show ?thesis
  proof (cases "b = 0x1B")
    case True
    with Nil assms(2) show ?thesis
      by (auto simp: handle_byte_def Let_def esc_ok_def)
  next
    case False
    from plain_colour_step [OF Nil False assms(2)] show ?thesis
      by (simp add: esc_ok_def)
  qed
next
  case (Cons e rest)
  with assms(1) have e: "e = 0x1B"
    and rest: "list_all (\<lambda>b. \<not> (0x40 \<le> b \<and> b \<le> 0x7E)) rest"
    by (simp_all add: esc_ok_def)
  show ?thesis
  proof (cases "0x40 \<le> b \<and> b \<le> 0x7E")
    case False
    with Cons assms(2) e rest show ?thesis
      by (auto simp: handle_byte_def Let_def esc_ok_def)
  next
    case True
    have "parseEscapeSequence k (e # rest @ [b]) t = t" for t
    proof (cases rest)
      case Nil
      then show ?thesis by (simp add: parse_two)
    next
      case (Cons r rs)
      with rest have "r \<noteq> 0x5B" by auto
      with Cons show ?thesis by (simp add: parse_not_csi)
    qed
    with True Cons assms(2) show ?thesis
      by (auto simp: handle_byte_def Let_def esc_ok_def)
  qed
qed

lemma colour_never_changes:
  "esc_ok s \<Longrightarrow> handleOutput k bs s = Inr s' \<Longrightarrow>
   esc_ok s' \<and> currentColor s' = currentColor s"
proof (induction bs arbitrary: s)
  case Nil
  then show ?case by simp
next
  case (Cons b bs)
  from Cons.prems(2) obtain s1
    where s1: "handle_byte k b s = Inr s1" "handleOutput k bs s1 = Inr s'"
    by (auto split: sum.splits)
  from colour_step [OF Cons.prems(1) s1(1)] Cons.IH [OF _ s1(2)] show ?case by simp
qed

lemma colour_stays_white:
  "handleOutput k bs (initial cw chh) = Inr s' \<Longrightarrow> currentColor s' = White"
  using colour_never_changes [of "initial cw chh" k bs s']
  by (simp add: esc_ok_def initial_def)

subsection \<open>Writes stay inside a grid that has a row\<close>

lemma grid_row:
  assumes "grid_ok s" "0 \<le> y" "y < rows s"
  shows "nat y < length (screen s)" and "int (length (screen s ! nat y)) = cols s"
proof -
  have "int (length (screen s)) = rows s" using assms(1) by (simp add: grid_ok_def)
  with assms show y: "nat y < length (screen s)" by linarith
  then have "screen s ! nat y \<in> set (screen s)" by simp
  then show "int (length (screen s ! nat y)) = cols s"
    using assms(1) by (simp add: grid_ok_def)
qed

lemma handle_byte_safe:
  assumes "grid_ok s" "1 \<le> rows s" "0 \<le> cursorX s" "0 \<le> cursorY s"
  shows "\<exists>s'. handle_byte k b s = Inr s' \<and> grid_ok s' \<and> rows s' = rows s \<and> cols s' = cols s
           \<and> 0 \<le> cursorX s' \<and> 0 \<le> cursorY s'
           \<and> (cursorX s < cols s \<longrightarrow> cursorX s' < cols s')
           \<and> (cursorY s < rows s \<longrightarrow> cursorY s' < rows s')"
  using assms
  apply (simp add: handle_byte_def Let_def next_line_def store_cell_def grid_ok_def)
  apply (auto simp: grid_ok_def dest!: set_update_subset_insert [THEN subsetD])
  done

lemma handleOutput_safe:
  assumes "grid_ok s" "1 \<le> rows s" "0 \<le> cursorX s" "0 \<le> cursorY s"
  shows "\<exists>s'. handleOutput k bs s = Inr s' \<and> grid_ok s' \<and> rows s' = rows s \<and> cols s' = cols s
           \<and> 0 \<le> cursorX s' \<and> 0 \<le> cursorY s'
           \<and> (cursorX s < cols s \<longrightarrow> cursorX s' < cols s')
           \<and> (cursorY s < rows s \<longrightarrow> cursorY s' < rows s')"
  using assms
proof (induction bs arbitrary: s)
  case Nil
  then show ?case by simp
next
  case (Cons b bs)
  from handle_byte_safe [OF Cons.prems, of k b] obtain s1 where
    s1: "handle_byte k b s = Inr s1" "grid_ok s1" "rows s1 = rows s" "cols s1 = cols s"
        "0 \<le> cursorX s1" "0 \<le> cursorY s1"
        "cursorX s < cols s \<longrightarrow> cursorX s1 < cols s1"
        "cursorY s < rows s \<longrightarrow> cursorY s1 < rows s1"
    by blast
  from Cons.IH [of s1] s1 Cons.prems obtain s2 where
    s2: "handleOutput k bs s1 = Inr s2" "grid_ok s2" "rows s2 = rows s1" "cols s2 = cols s1"
        "0 \<le> cursorX s2" "0 \<le> cursorY s2"
        "cursorX s1 < cols s1 \<longrightarrow> cursorX s2 < cols s2"
        "cursorY s1 < rows s1 \<longrightarrow> cursorY s2 < rows s2"
    by auto
  show ?case using s1 s2 by simp
qed

subsection \<open>Printing along a row\<close>

lemma plain_step:
  assumes "grid_ok s" "escBuf s = []" "0 \<le> cursorY s" "cursorY s < rows s"
    "0 \<le> cursorX s" "cursorX s < cols s" "b \<noteq> 0x0A" "b \<noteq> 0x1B"
  shows "handle_byte k b s =
     (let s1 = s\<lparr>screen := (screen s)[nat (cursorY s) :=
                 (screen s ! nat (cursorY s))[nat (cursorX s) := Cell (QChar b) (currentColor s)]],
                cursorX := cursorX s + 1\<rparr>
      in Inr (if cols s \<le> cursorX s + 1 then next_line s1 else s1))"
proof -
  have "nat (cursorY s) < length (screen s)"
    and "int (length (screen s ! nat (cursorY s))) = cols s"
    using assms by (simp_all add: grid_row)
  then show ?thesis
    using assms by (simp add: handle_byte_def store_cell_def Let_def)
qed

lemma print_run:
  assumes "grid_ok s" "escBuf s = []" "0 \<le> cursorY s" "cursorY s < rows s"
    "0 \<le> cursorX s" "cursorX s + int (length bs) < cols s"
    "\<forall>b \<in> set bs. b \<noteq> 0x0A \<and> b \<noteq> 0x1B"
  shows "handleOutput k bs s =
     Inr (s\<lparr>screen := (screen s)[nat (cursorY s) :=
                 take (nat (cursorX s)) (screen s ! nat (cursorY s))
                 @ map (\<lambda>b. Cell (QChar b) (currentColor s)) bs
                 @ drop (nat (cursorX s) + length bs) (screen s ! nat (cursorY s))],
            cursorX := cursorX s + int (length bs)\<rparr>)"
  using assms
proof (induction bs arbitrary: s)
  case Nil
  then show ?case by simp
next
  case (Cons b bs)
  let ?y = "nat (cursorY s)" and ?x = "nat (cursorX s)"
  let ?row = "screen s ! ?y"
  let ?s1 = "s\<lparr>screen := (screen s)[?y := ?row[?x := Cell (QChar b) (currentColor s)]],
               cursorX := cursorX s + 1\<rparr>"
  have ylen: "?y < length (screen s)" and rowlen: "int (length ?row) = cols s"
    using Cons.prems by (simp_all add: grid_row)
  have xlen: "?x < length ?row" using Cons.prems rowlen by simp
  have step: "handle_byte k b s = Inr ?s1"
    using plain_step [of s b k] Cons.prems by (simp add: Let_def)
  have ok1: "grid_ok ?s1"
    using Cons.prems(1) rowlen
    by (auto simp: grid_ok_def dest!: set_update_subset_insert [THEN subsetD])
  have ih: "handleOutput k bs ?s1 =
     Inr (?s1\<lparr>screen := (screen ?s1)[nat (cursorY ?s1) :=
                 take (nat (cursorX ?s1)) (screen ?s1 ! nat (cursorY ?s1))
                 @ map (\<lambda>b. Cell (QChar b) (currentColor ?s1)) bs
                 @ drop (nat (cursorX ?s1) + length bs) (screen ?s1 ! nat (cursorY ?s1))],
            cursorX := cursorX ?s1 + int (length bs)\<rparr>)"
    using Cons.prems ok1 by (intro Cons.IH) auto
  have x1: "nat (cursorX s + 1) = Suc ?x" using Cons.prems by simp
  have t: "take (Suc ?x) (?row[?x := Cell (QChar b) (currentColor s)])
             = take ?x ?row @ [Cell (QChar b) (currentColor s)]"
    using xlen by (simp add: take_Suc_conv_app_nth)
  have d: "drop (Suc ?x + length bs) (?row[?x := Cell (QChar b) (currentColor s)])
             = drop (Suc ?x + length bs) ?row"
    by simp
  show ?case
    using step ih ylen x1 t d by (simp add: add.commute add.left_commute)
qed

lemma print_line:
  assumes "grid_ok s" "escBuf s = []" "cursorX s = 0" "0 \<le> cursorY s" "cursorY s < rows s"
    "1 \<le> cols s" "int (length bs) = cols s" "\<forall>b \<in> set bs. b \<noteq> 0x0A \<and> b \<noteq> 0x1B"
  shows "handleOutput k bs s =
       Inr (s\<lparr>screen := (screen s)[nat (cursorY s) :=
                   map (\<lambda>b. Cell (QChar b) (currentColor s)) bs],
              cursorX := 0, cursorY := min (cursorY s + 1) (rows s - 1)\<rparr>)"
proof -
  let ?g = "\<lambda>b. Cell (QChar b) (currentColor s)"
  let ?y = "nat (cursorY s)"
  let ?row = "screen s ! ?y"
  from assms have "bs \<noteq> []" by auto
  then obtain cs c where bs: "bs = cs @ [c]" by (metis rev_exhaust)
  have ylen: "?y < length (screen s)" and rowlen: "int (length ?row) = cols s"
    using assms by (simp_all add: grid_row)
  let ?s1 = "s\<lparr>screen := (screen s)[?y := map ?g cs @ drop (length cs) ?row],
               cursorX := int (length cs)\<rparr>"
  have run: "handleOutput k cs s = Inr ?s1"
    using print_run [of s cs k] assms bs by simp
  have ok1: "grid_ok ?s1"
    using assms(1) rowlen assms(7) bs
    by (auto simp: grid_ok_def dest!: set_update_subset_insert [THEN subsetD])
  have last: "handle_byte k c ?s1 =
       Inr (s\<lparr>screen := (screen s)[?y := map ?g bs],
              cursorX := 0, cursorY := min (cursorY s + 1) (rows s - 1)\<rparr>)"
  proof -
    have "length ?row = Suc (length cs)" using rowlen assms(7) bs by simp
    then have "drop (length cs) ?row = [?row ! length cs]"
      by (simp add: Cons_nth_drop_Suc [symmetric])
    then have upd: "(map ?g cs @ drop (length cs) ?row)[length cs := ?g c] = map ?g bs"
      by (simp add: list_update_append bs)
    show ?thesis
      using plain_step [of ?s1 c k] ok1 assms bs ylen upd
      by (simp add: Let_def next_line_def)
  qed
  show ?thesis
    using run last by (simp add: bs handleOutput_append)
qed

subsection \<open>Truncating division on what a widget can report\<close>

lemma sdiv_nonneg: "0 \<le> a \<Longrightarrow> 0 < b \<Longrightarrow> a sdiv b = a div (b::int)"
  by (simp add: signed_divide_int_def sgn_if)

section \<open>The claims\<close>

text \<open>
  In the concrete runs below the widget starts from \<open>initial 10 18\<close>: the 24 by 80
  grid with the cell size of the member initialisers.
\<close>

subsection \<open>C1: the bytes ESC [ 3 1 m H I CR LF\<close>

text \<open>
  Claim C1 expects \<open>H\<close> and \<open>I\<close> in red at cells (0,0) and (0,1), the cursor at
  (1,0), and none of the sequence's bytes on the grid. The code ends the sequence at
  \<open>[\<close>, which lies in \<open>0x40\<close> to \<open>0x7E\<close>, so \<open>parseEscapeSequence\<close> sees ESC \<open>[\<close> alone
  and the rest is printed: row 0 starts with \<open>3\<close>, \<open>1\<close>, \<open>m\<close>, \<open>H\<close>, \<open>I\<close> and the
  carriage return, all white, and the colour stays white. Only the cursor ends where
  the claim says. This holds under both readings of the pattern.
\<close>

theorem sgr_red_bytes_reach_grid:
  "case handleOutput k [0x1B, 0x5B, 0x33, 0x31, 0x6D, 0x48, 0x49, 0x0D, 0x0A] (initial 10 18) of
     Inl e \<Rightarrow> False
   | Inr s \<Rightarrow>
       screen s ! 0 ! 0 = Cell 0x33 White \<and> screen s ! 0 ! 1 = Cell 0x31 White
       \<and> screen s ! 0 ! 2 = Cell 0x6D White \<and> screen s ! 0 ! 3 = Cell 0x48 White
       \<and> screen s ! 0 ! 4 = Cell 0x49 White \<and> screen s ! 0 ! 5 = Cell 0x0D White
       \<and> currentColor s = White \<and> escBuf s = [] \<and> cursorX s = 0 \<and> cursorY s = 1"
  by (cases k; code_simp)

text \<open>The same run under the letter reading of the pattern: the first cell shows \<open>3\<close>.\<close>

theorem sgr_red_bytes_reach_grid_witness:
  "\<not> isl (handleOutput LetterD [0x1B, 0x5B, 0x33, 0x31, 0x6D, 0x48, 0x49, 0x0D, 0x0A] (initial 10 18))
   \<and> screen (projr (handleOutput LetterD [0x1B, 0x5B, 0x33, 0x31, 0x6D, 0x48, 0x49, 0x0D, 0x0A]
         (initial 10 18))) ! 0 ! 0 = Cell 0x33 White"
  using sgr_red_bytes_reach_grid [of LetterD]
  by (cases "handleOutput LetterD [0x1B, 0x5B, 0x33, 0x31, 0x6D, 0x48, 0x49, 0x0D, 0x0A] (initial 10 18)")
     (simp_all del: handleOutput.simps)

subsection \<open>C2: chunk boundaries\<close>

text \<open>
  Claim C2: feeding a byte sequence in one call gives the same grid, cursor, colour
  and accumulator as feeding its first \<open>n\<close> bytes in one call and the rest in a
  second one, for every sequence, every \<open>n\<close> and every state. The second call
  happens on the state the first one left; where the first call already indexes
  outside the grid, so does the single call.
\<close>

theorem handleOutput_chunks:
  "handleOutput k data s =
     (case handleOutput k (take n data) s of
        Inl e \<Rightarrow> Inl e
      | Inr s' \<Rightarrow> handleOutput k (drop n data) s')"
  using handleOutput_append [of k "take n data" "drop n data" s] by simp

text \<open>The sequence ESC [ 3 1 m H, cut after its third byte.\<close>

theorem handleOutput_chunks_witness:
  "handleOutput DecimalDigit [0x1B, 0x5B, 0x33, 0x31, 0x6D, 0x48] (initial 10 18) =
     (case handleOutput DecimalDigit [0x1B, 0x5B, 0x33] (initial 10 18) of
        Inl e \<Rightarrow> Inl e
      | Inr s' \<Rightarrow> handleOutput DecimalDigit [0x31, 0x6D, 0x48] s')"
proof -
  have t: "take 3 [0x1B, 0x5B, 0x33, 0x31, 0x6D, 0x48 :: uchar] = [0x1B, 0x5B, 0x33]"
    and d: "drop 3 [0x1B, 0x5B, 0x33, 0x31, 0x6D, 0x48 :: uchar] = [0x31, 0x6D, 0x48]"
    by simp_all
  from handleOutput_chunks [of DecimalDigit "[0x1B, 0x5B, 0x33, 0x31, 0x6D, 0x48]" "initial 10 18" 3]
  show ?thesis unfolding t d .
qed

subsection \<open>C3: the length of the accumulator\<close>

text \<open>
  Claim C3 says that an accumulator longer than a bound (64 bytes, say) is dropped
  and the parser goes back to ground. The code has no such bound: after ESC and
  seventy bytes \<open>0\<close> the accumulator holds all 71 bytes and the sequence is still open.
\<close>

theorem escBuf_unbounded_counterexample:
  "\<not> isl (handleOutput DecimalDigit (0x1B # replicate 70 0x30) (initial 10 18))
   \<and> length (escBuf (projr (handleOutput DecimalDigit (0x1B # replicate 70 0x30) (initial 10 18))))
       = 71"
  by code_simp

text \<open>
  Claim C3 as amended: while a sequence is open, every byte outside \<open>0x40\<close> to \<open>0x7E\<close>
  is appended to the accumulator and nothing else changes, however many there are;
  the sequence ends only at a byte of \<open>0x40\<close> to \<open>0x7E\<close>, which empties the
  accumulator and leaves the grid and the cursor as they were.
\<close>

theorem escBuf_accumulates:
  assumes "escBuf s \<noteq> []" "\<forall>b \<in> set bs. \<not> (0x40 \<le> b \<and> b \<le> 0x7E)" "0x40 \<le> f \<and> f \<le> 0x7E"
  shows "handleOutput k bs s = Inr (s\<lparr>escBuf := escBuf s @ bs\<rparr>)
     \<and> (\<exists>s'. handleOutput k (bs @ [f]) s = Inr s' \<and> escBuf s' = []
            \<and> screen s' = screen s \<and> cursorX s' = cursorX s \<and> cursorY s' = cursorY s)"
proof -
  have acc: "handleOutput k bs s = Inr (s\<lparr>escBuf := escBuf s @ bs\<rparr>)"
    using assms(1,2) by (rule accumulate)
  have "escBuf (s\<lparr>escBuf := escBuf s @ bs\<rparr>) \<noteq> []" using assms(1) by simp
  from handle_byte_final [OF this assms(3), of k] acc
  show ?thesis by (simp add: handleOutput_append)
qed

text \<open>After ESC, the bytes \<open>3\<close> and \<open>1\<close> are kept and \<open>m\<close> closes the sequence.\<close>

theorem escBuf_accumulates_witness:
  "handleOutput DecimalDigit [0x33, 0x31] ((initial 10 18)\<lparr>escBuf := [0x1B]\<rparr>)
     = Inr ((initial 10 18)\<lparr>escBuf := [0x1B, 0x33, 0x31]\<rparr>)
   \<and> (\<exists>s'. handleOutput DecimalDigit [0x33, 0x31, 0x6D] ((initial 10 18)\<lparr>escBuf := [0x1B]\<rparr>)
              = Inr s' \<and> escBuf s' = [])"
  using escBuf_accumulates
          [of "(initial 10 18)\<lparr>escBuf := [0x1B]\<rparr>" "[0x33, 0x31]" "0x6D" DecimalDigit]
  by auto

subsection \<open>C4: ESC [ 2 J\<close>

text \<open>
  Claim C4 says that ESC [ 2 J blanks every cell and leaves the cursor alone. On a
  grid that shows \<open>X\<close> at (0,0), with the cursor in column 1, the code keeps the
  \<open>X\<close>, prints \<open>2\<close> and \<open>J\<close> after it and moves the cursor to column 3.
\<close>

theorem erase_display_counterexample:
  "\<not> isl (handleOutput DecimalDigit [0x58] (initial 10 18))
   \<and> cursorX (projr (handleOutput DecimalDigit [0x58] (initial 10 18))) = 1
   \<and> \<not> isl (handleOutput DecimalDigit [0x1B, 0x5B, 0x32, 0x4A]
               (projr (handleOutput DecimalDigit [0x58] (initial 10 18))))
   \<and> screen (projr (handleOutput DecimalDigit [0x1B, 0x5B, 0x32, 0x4A]
               (projr (handleOutput DecimalDigit [0x58] (initial 10 18))))) ! 0 ! 0 = Cell 0x58 White
   \<and> screen (projr (handleOutput DecimalDigit [0x1B, 0x5B, 0x32, 0x4A]
               (projr (handleOutput DecimalDigit [0x58] (initial 10 18))))) ! 0 ! 1 = Cell 0x32 White
   \<and> screen (projr (handleOutput DecimalDigit [0x1B, 0x5B, 0x32, 0x4A]
               (projr (handleOutput DecimalDigit [0x58] (initial 10 18))))) ! 0 ! 2 = Cell 0x4A White
   \<and> cursorX (projr (handleOutput DecimalDigit [0x1B, 0x5B, 0x32, 0x4A]
               (projr (handleOutput DecimalDigit [0x58] (initial 10 18))))) = 3"
  by code_simp

text \<open>
  Claim C4 as amended: the widget has no erase operation. Dispatching the sequence
  ESC [ 2 J, that is \<open>parseEscapeSequence\<close> on it, resets no cell and leaves the grid,
  the cursor and the current colour as they were.
\<close>

theorem erase_display_dispatch_noop:
  "parseEscapeSequence k [0x1B, 0x5B, 0x32, 0x4A] s = s"
  by (rule no_erase)

text \<open>On the fresh widget, under the digit reading.\<close>

theorem erase_display_dispatch_noop_witness:
  "parseEscapeSequence DecimalDigit [0x1B, 0x5B, 0x32, 0x4A] (initial 10 18) = initial 10 18"
  using erase_display_dispatch_noop [of DecimalDigit "initial 10 18"] by simp

subsection \<open>C5: SGR code 0\<close>



subsection \<open>C6: the cursor after a resize\<close>

text \<open>
  Claim C6 says that a resize clamps the cursor into the new bounds. \<open>resizeEvent\<close>
  does not touch the cursor: 23 line feeds put it on row 23, and after the shrink to
  12 rows of 40 columns it is still on row 23.
\<close>

theorem resize_no_clamp_counterexample:
  "\<not> isl (handleOutput DecimalDigit (replicate 23 0x0A) (initial 10 18))
   \<and> cursorY (projr (handleOutput DecimalDigit (replicate 23 0x0A) (initial 10 18))) = 23
   \<and> \<not> isl (resizeEvent 400 216
        (projr (handleOutput DecimalDigit (replicate 23 0x0A) (initial 10 18))))
   \<and> rows (projr (resizeEvent 400 216
        (projr (handleOutput DecimalDigit (replicate 23 0x0A) (initial 10 18))))) = 12
   \<and> cols (projr (resizeEvent 400 216
        (projr (handleOutput DecimalDigit (replicate 23 0x0A) (initial 10 18))))) = 40
   \<and> cursorY (projr (resizeEvent 400 216
        (projr (handleOutput DecimalDigit (replicate 23 0x0A) (initial 10 18))))) = 23"
  by code_simp

text \<open>
  Claim C6 as amended: for a widget size that is not negative and a cell size that is
  positive, a resize never fails; it gives the grid its new number of rows and
  columns and leaves the cursor where it was. After a shrink the cursor is inside the
  new bounds only if it was inside them before.
\<close>

theorem resizeEvent_keeps_cursor:
  assumes "0 \<le> w" "0 \<le> h" "0 < charWidth s" "0 < charHeight s"
  shows "\<exists>s'. resizeEvent w h s = Inr s'
          \<and> cols s' = w div charWidth s \<and> rows s' = h div charHeight s \<and> grid_ok s'
          \<and> cursorX s' = cursorX s \<and> cursorY s' = cursorY s
          \<and> charWidth s' = charWidth s \<and> charHeight s' = charHeight s"
proof -
  have c: "w sdiv charWidth s = w div charWidth s" "0 \<le> w div charWidth s"
    using assms by (simp_all add: sdiv_nonneg pos_imp_zdiv_nonneg_iff)
  have r: "h sdiv charHeight s = h div charHeight s" "0 \<le> h div charHeight s"
    using assms by (simp_all add: sdiv_nonneg pos_imp_zdiv_nonneg_iff)
  show ?thesis
    using assms c r
    by (auto simp: resizeEvent_def Let_def grid_ok_def vresize_def dest: in_set_takeD)
qed

text \<open>From 80 by 24 to 40 by 12 and back, with the cursor in the last cell.\<close>

theorem resizeEvent_keeps_cursor_witness:
  "\<exists>s'. resizeEvent 400 216 ((initial 10 18)\<lparr>cursorX := 79, cursorY := 23\<rparr>) = Inr s'
      \<and> cols s' = 40 \<and> rows s' = 12 \<and> cursorX s' = 79 \<and> cursorY s' = 23
      \<and> (\<exists>s''. resizeEvent 800 432 s' = Inr s'' \<and> cols s'' = 80 \<and> rows s'' = 24
             \<and> cursorX s'' = 79 \<and> cursorY s'' = 23)"
proof -
  let ?s = "(initial 10 18)\<lparr>cursorX := 79, cursorY := 23\<rparr>"
  have h: "(0::int) \<le> 400" "(0::int) \<le> 216" "0 < charWidth ?s" "0 < charHeight ?s"
    by (simp_all add: initial_def)
  from resizeEvent_keeps_cursor [OF h] obtain s' where
    s': "resizeEvent 400 216 ?s = Inr s'" "cols s' = 40" "rows s' = 12"
        "cursorX s' = 79" "cursorY s' = 23" "charWidth s' = 10" "charHeight s' = 18"
    by (auto simp: initial_def)
  have h': "(0::int) \<le> 800" "(0::int) \<le> 432" "0 < charWidth s'" "0 < charHeight s'"
    using s' by simp_all
  from resizeEvent_keeps_cursor [OF h'] s' show ?thesis by auto
qed

subsection \<open>C7: a full row of glyphs\<close>

text \<open>
  Claim C7: with the cursor in column 0 of a row \<open>r\<close> of the grid, printing exactly
  \<open>cols\<close> glyphs (bytes other than line feed and ESC, outside an escape sequence)
  leaves the cursor in column 0 of row \<open>r + 1\<close>, or of the last row when \<open>r\<close> is the
  last row. The cursor never moves up, and the grid does not scroll: row \<open>r\<close> now
  holds the glyphs and every other row is as it was.
\<close>

theorem print_cols_wraps:
  assumes "grid_ok s" "escBuf s = []" "cursorX s = 0" "0 \<le> cursorY s" "cursorY s < rows s"
    "1 \<le> cols s" "int (length bs) = cols s" "\<forall>b \<in> set bs. b \<noteq> 0x0A \<and> b \<noteq> 0x1B"
  shows "\<exists>s'. handleOutput k bs s = Inr s' \<and> cursorX s' = 0
          \<and> cursorY s' = (if cursorY s = rows s - 1 then rows s - 1 else cursorY s + 1)
          \<and> cursorY s \<le> cursorY s'
          \<and> screen s' =
              (screen s)[nat (cursorY s) := map (\<lambda>b. Cell (QChar b) (currentColor s)) bs]"
  using print_line [OF assms, of k] assms(5) by auto

text \<open>Eighty times \<open>A\<close> on the fresh grid.\<close>

theorem print_cols_wraps_witness:
  "\<exists>s'. handleOutput DecimalDigit (replicate 80 0x41) (initial 10 18) = Inr s'
      \<and> cursorX s' = 0 \<and> cursorY s' = 1
      \<and> screen s' = (screen (initial 10 18))[0 := replicate 80 (Cell 0x41 White)]"
proof -
  have g: "grid_ok (initial 10 18)"
    by (simp add: grid_ok_def initial_def TERM_ROWS_def TERM_COLS_def)
  have h: "escBuf (initial 10 18) = []" "cursorX (initial 10 18) = 0"
    "0 \<le> cursorY (initial 10 18)"
    "cursorY (initial 10 18) < rows (initial 10 18)" "1 \<le> cols (initial 10 18)"
    "int (length (replicate 80 (0x41::uchar))) = cols (initial 10 18)"
    "\<forall>b \<in> set (replicate 80 (0x41::uchar)). b \<noteq> 0x0A \<and> b \<noteq> 0x1B"
    by (simp_all add: initial_def TERM_ROWS_def TERM_COLS_def)
  from print_cols_wraps [OF g h, of DecimalDigit] show ?thesis
    by (auto simp: initial_def TERM_ROWS_def TERM_COLS_def QChar_def)
qed

subsection \<open>C8: the byte after ESC\<close>

text \<open>
  Claim C8 says that any byte other than \<open>[\<close> after ESC ends the escape at once. The
  code ends it only at a byte of \<open>0x40\<close> to \<open>0x7E\<close>: after ESC \<open>7\<close> the sequence is
  still open, and of the bytes \<open>A\<close> \<open>B\<close> that follow, \<open>A\<close> is taken as its end and
  only \<open>B\<close> is printed.
\<close>

theorem short_escape_counterexample:
  "\<not> isl (handleOutput DecimalDigit [0x1B, 0x37] (initial 10 18))
   \<and> escBuf (projr (handleOutput DecimalDigit [0x1B, 0x37] (initial 10 18))) = [0x1B, 0x37]
   \<and> \<not> isl (handleOutput DecimalDigit [0x1B, 0x37, 0x41, 0x42] (initial 10 18))
   \<and> screen (projr (handleOutput DecimalDigit [0x1B, 0x37, 0x41, 0x42] (initial 10 18))) ! 0 ! 0
       = Cell 0x42 White
   \<and> cursorX (projr (handleOutput DecimalDigit [0x1B, 0x37, 0x41, 0x42] (initial 10 18))) = 1"
  by code_simp

text \<open>
  Claim C8 as amended: immediately after ESC, a byte other than \<open>[\<close> that lies in
  \<open>0x40\<close> to \<open>0x7E\<close> ends the escape with that one byte: the accumulator is emptied
  and nothing else changes. A byte outside that range is appended to the accumulator
  and the escape stays open. In both cases no byte of the escape is written to the
  grid.
\<close>

theorem escape_second_byte:
  assumes "escBuf s = [0x1B]" "b \<noteq> 0x5B"
  shows "handle_byte k b s =
           Inr (if 0x40 \<le> b \<and> b \<le> 0x7E then s\<lparr>escBuf := []\<rparr> else s\<lparr>escBuf := [0x1B, b]\<rparr>)"
  using assms by (rule short_escape)

text \<open>ESC \<open>c\<close> is over after the \<open>c\<close>; ESC \<open>7\<close> is not over after the \<open>7\<close>.\<close>

theorem escape_second_byte_witness:
  "handle_byte DecimalDigit 0x63 ((initial 10 18)\<lparr>escBuf := [0x1B]\<rparr>) = Inr (initial 10 18)
   \<and> handle_byte DecimalDigit 0x37 ((initial 10 18)\<lparr>escBuf := [0x1B]\<rparr>)
        = Inr ((initial 10 18)\<lparr>escBuf := [0x1B, 0x37]\<rparr>)"
  using escape_second_byte [of "(initial 10 18)\<lparr>escBuf := [0x1B]\<rparr>" "0x63" DecimalDigit]
        escape_second_byte [of "(initial 10 18)\<lparr>escBuf := [0x1B]\<rparr>" "0x37" DecimalDigit]
  by (simp add: initial_def)

subsection \<open>C9: writes and the bounds of the grid\<close>

text \<open>
  Claim C9 says that no input makes \<open>handleOutput\<close> write outside the grid, since
  every write is guarded by \<open>cursorY < rows\<close> and \<open>cursorX < cols\<close>. The guard has no
  lower bound. A widget 10 pixels high has no row at all (\<open>rows = 0\<close>, an empty
  \<open>screen\<close>); a line feed then sets \<open>cursorY\<close> to \<open>qMin(cursorY + 1, rows - 1) = -1\<close>,
  and the next glyph passes the guard and indexes \<open>screen[-1]\<close>. With at least one
  row, \<open>handleOutput_safe\<close> above shows that every write is inside the grid and that a
  cursor inside the grid stays inside.
\<close>

theorem zero_rows_write_out_of_range:
  "\<not> isl (resizeEvent 800 10 (initial 10 18))
   \<and> rows (projr (resizeEvent 800 10 (initial 10 18))) = 0
   \<and> cols (projr (resizeEvent 800 10 (initial 10 18))) = 80
   \<and> screen (projr (resizeEvent 800 10 (initial 10 18))) = []
   \<and> handle_byte k 0x0A (projr (resizeEvent 800 10 (initial 10 18)))
       = Inr ((projr (resizeEvent 800 10 (initial 10 18)))\<lparr>cursorX := 0, cursorY := -1\<rparr>)
   \<and> handleOutput k [0x0A, 0x41] (projr (resizeEvent 800 10 (initial 10 18)))
       = Inl IndexOutOfRange"
  by (cases k; code_simp)

text \<open>The same run under the digit reading of the pattern.\<close>

theorem zero_rows_write_out_of_range_witness:
  "handleOutput DecimalDigit [0x0A, 0x41] (projr (resizeEvent 800 10 (initial 10 18)))
     = Inl IndexOutOfRange"
  using zero_rows_write_out_of_range [of DecimalDigit] by (simp del: handleOutput.simps)

subsection \<open>C10: what each kind of byte may change\<close>

text \<open>
  Claim C10: outside an escape sequence, bytes other than ESC (glyphs and control
  bytes alike) never change the current colour, and on a grid with at least one row
  and a cursor that is not negative the run does complete. Conversely, dispatching a
  sequence changes at most the current colour: \<open>parseEscapeSequence\<close> returns its
  state with no other member touched, and the loop step that dispatches leaves the
  grid and the cursor as they were.
\<close>

theorem attribute_frame:
  "(escBuf s = [] \<longrightarrow> (\<forall>b \<in> set bs. b \<noteq> 0x1B) \<longrightarrow>
      (\<forall>s'. handleOutput k bs s = Inr s' \<longrightarrow> currentColor s' = currentColor s)
      \<and> (grid_ok s \<and> 1 \<le> rows s \<and> 0 \<le> cursorX s \<and> 0 \<le> cursorY s \<longrightarrow>
           (\<exists>s'. handleOutput k bs s = Inr s' \<and> currentColor s' = currentColor s)))
   \<and> parseEscapeSequence k seq t = t\<lparr>currentColor := currentColor (parseEscapeSequence k seq t)\<rparr>
   \<and> (escBuf t \<noteq> [] \<longrightarrow> 0x40 \<le> f \<and> f \<le> 0x7E \<longrightarrow>
        (\<exists>t'. handle_byte k f t = Inr t' \<and> screen t' = screen t
             \<and> cursorX t' = cursorX t \<and> cursorY t' = cursorY t))"
proof (intro conjI impI allI)
  fix s' assume "escBuf s = []" "\<forall>b \<in> set bs. b \<noteq> 0x1B" "handleOutput k bs s = Inr s'"
  then show "currentColor s' = currentColor s" using plain_colour by blast
next
  assume a: "escBuf s = []" "\<forall>b \<in> set bs. b \<noteq> 0x1B"
    and w: "grid_ok s \<and> 1 \<le> rows s \<and> 0 \<le> cursorX s \<and> 0 \<le> cursorY s"
  from w handleOutput_safe [of s k bs] obtain s' where s': "handleOutput k bs s = Inr s'"
    by blast
  with plain_colour [OF a s']
  show "\<exists>s'. handleOutput k bs s = Inr s' \<and> currentColor s' = currentColor s"
    by blast
next
  show "parseEscapeSequence k seq t = t\<lparr>currentColor := currentColor (parseEscapeSequence k seq t)\<rparr>"
    by (rule parse_frame)
next
  assume "escBuf t \<noteq> []" "0x40 \<le> f \<and> f \<le> 0x7E"
  from handle_byte_final [OF this, of k]
  show "\<exists>t'. handle_byte k f t = Inr t' \<and> screen t' = screen t
             \<and> cursorX t' = cursorX t \<and> cursorY t' = cursorY t"
    by simp
qed

text \<open>
  \<open>H\<close>, a tab and a line feed on the fresh grid; and the byte \<open>m\<close> that closes an
  open sequence ESC \<open>3\<close> \<open>1\<close>.
\<close>

theorem attribute_frame_witness:
  "(\<exists>s'. handleOutput DecimalDigit [0x48, 0x09, 0x0A] (initial 10 18) = Inr s'
        \<and> currentColor s' = White)
   \<and> (\<exists>t'. handle_byte DecimalDigit 0x6D ((initial 10 18)\<lparr>escBuf := [0x1B, 0x33, 0x31]\<rparr>) = Inr t'
         \<and> screen t' = screen (initial 10 18) \<and> cursorX t' = 0 \<and> cursorY t' = 0)"
  using attribute_frame [of "initial 10 18" "[0x48, 0x09, 0x0A]" DecimalDigit
          "[]" "(initial 10 18)\<lparr>escBuf := [0x1B, 0x33, 0x31]\<rparr>" "0x6D"]
  by (simp add: initial_def grid_ok_def TERM_ROWS_def TERM_COLS_def)


end
